theory Spec2Isabelle
  imports Complex_Main
begin

section \<open>Python values, errors and the two enumerations\<close>

text \<open>
  The module \<^verbatim>\<open>airpurifier_miot.py\<close> is a thin client over the MIoT property protocol:
  a table of property addresses, a status object with one accessor per property, and a
  set of commands that check their argument and call the device client's
  \<^verbatim>\<open>set_property\<close>. The status bag is a \<^verbatim>\<open>Dict[str, Any]\<close> filled from the device's JSON
  answer, so its values are modelled by a datatype of the Python values that can occur.
\<close>

text \<open>A Python float: a finite binary64 number, given by its exact value, or a special.\<close>

datatype pyfloat = Finite rat | PosInf | NegInf | NaN

datatype OperationMode = Auto | Silent | Favorite | Fan

datatype LedBrightness = Bright | Dim | Off

datatype pyval =
    PNone
  | PBool bool
  | PInt int
  | PFloat pyfloat
  | PStr string
  | PList "pyval list"
  | PDict "(string \<times> pyval) list"
  | PMode OperationMode
  | PLed LedBrightness

datatype error =
    KeyError string
  | ValueError
  | TypeError
  | AirPurifierMiotException string
  | DeviceException string

text \<open>\<^verbatim>\<open>OperationMode.value\<close> and \<^verbatim>\<open>LedBrightness.value\<close>: the integer bound to each member.\<close>

fun OperationMode_value :: "OperationMode \<Rightarrow> int" where
  "OperationMode_value Auto = 0"
| "OperationMode_value Silent = 1"
| "OperationMode_value Favorite = 2"
| "OperationMode_value Fan = 3"

fun LedBrightness_value :: "LedBrightness \<Rightarrow> int" where
  "LedBrightness_value Bright = 0"
| "LedBrightness_value Dim = 1"
| "LedBrightness_value Off = 2"

text \<open>
  Python's \<^verbatim>\<open>==\<close> between a value and an integer: \<^verbatim>\<open>True == 1\<close>, \<^verbatim>\<open>2.0 == 2\<close>; every
  other kind of value differs from every integer.
\<close>

fun py_eq_int :: "pyval \<Rightarrow> int \<Rightarrow> bool" where
  "py_eq_int (PInt n) c = (n = c)"
| "py_eq_int (PBool b) c = ((if b then 1 else 0) = c)"
| "py_eq_int (PFloat (Finite x)) c = (x = of_int c)"
| "py_eq_int _ _ = False"

text \<open>
  Calling an enumeration class on a value, \<^verbatim>\<open>OperationMode(v)\<close>: a member of the class is
  returned as it is, any other value is looked up among the members' values, and a
  value that no member has raises \<^verbatim>\<open>ValueError\<close>.
\<close>

definition OperationMode_call :: "pyval \<Rightarrow> error + OperationMode" where
  "OperationMode_call v =
     (case v of
        PMode m \<Rightarrow> Inr m
      | _ \<Rightarrow> (case find (\<lambda>m. py_eq_int v (OperationMode_value m)) [Auto, Silent, Favorite, Fan] of
                Some m \<Rightarrow> Inr m
              | None \<Rightarrow> Inl ValueError))"

definition LedBrightness_call :: "pyval \<Rightarrow> error + LedBrightness" where
  "LedBrightness_call v =
     (case v of
        PLed b \<Rightarrow> Inr b
      | _ \<Rightarrow> (case find (\<lambda>b. py_eq_int v (LedBrightness_value b)) [Bright, Dim, Off] of
                Some b \<Rightarrow> Inr b
              | None \<Rightarrow> Inl ValueError))"

text \<open>Truth value of a Python object, as \<^verbatim>\<open>if\<close> takes it.\<close>

fun truthy :: "pyval \<Rightarrow> bool" where
  "truthy PNone = False"
| "truthy (PBool b) = b"
| "truthy (PInt n) = (n \<noteq> 0)"
| "truthy (PFloat f) = (f \<noteq> Finite 0)"
| "truthy (PStr s) = (s \<noteq> [])"
| "truthy (PList xs) = (xs \<noteq> [])"
| "truthy (PDict kvs) = (kvs \<noteq> [])"
| "truthy (PMode m) = True"
| "truthy (PLed b) = True"

text \<open>\<^verbatim>\<open>str(n)\<close> for an integer, as \<^verbatim>\<open>"%s" % n\<close> formats it.\<close>

fun str_nat :: "nat \<Rightarrow> string" where
  "str_nat n = (if n < 10 then [''0123456789'' ! n] else str_nat (n div 10) @ [''0123456789'' ! (n mod 10)])"

definition str_int :: "int \<Rightarrow> string" where
  "str_int i = (if i < 0 then CHR ''-'' # str_nat (nat (- i)) else str_nat (nat i))"

section \<open>The property map\<close>

text \<open>\<^verbatim>\<open>_MODEL_AIRPURIFIER_ZA1\<close>: logical name to (siid, piid), in the order of the source.\<close>

definition MODEL_AIRPURIFIER_ZA1 :: "(string \<times> nat \<times> nat) list" where
  "MODEL_AIRPURIFIER_ZA1 =
    [(''power'', 2, 1),
     (''mode'', 2, 5),
     (''tvoc'', 3, 1),
     (''pm25'', 3, 6),
     (''humidity'', 3, 7),
     (''temperature'', 3, 8),
     (''filter_life_remaining'', 4, 3),
     (''filter_hours_used'', 4, 5),
     (''buzzer'', 5, 1),
     (''led_brightness'', 6, 1),
     (''child_lock'', 7, 1),
     (''favorite_level'', 10, 10),
     (''motor_speed'', 10, 11),
     (''use_time'', 12, 1),
     (''purify_volume'', 13, 1),
     (''average_aqi'', 13, 2),
     (''filter_rfid_tag'', 14, 1),
     (''filter_rfid_product_id'', 14, 3),
     (''gesture_status'', 15, 13)]"

section \<open>Commands\<close>

text \<open>
  The device client's \<^verbatim>\<open>set_property(name, value)\<close> belongs to the library underneath. A
  client is modelled by the list of the \<^verbatim>\<open>set_property\<close> calls it has received; what the
  library answers to a call (a result, or an exception of its own) is the parameter
  \<open>reply\<close>. A command returns what \<^verbatim>\<open>set_property\<close> returned, or the exception it raised
  itself, together with the client afterwards.
\<close>

type_synonym client = "(string \<times> pyval) list"

type_synonym replies = "string \<Rightarrow> pyval \<Rightarrow> error + pyval"

definition set_property :: "replies \<Rightarrow> string \<Rightarrow> pyval \<Rightarrow> client \<Rightarrow> (error + pyval) \<times> client" where
  "set_property reply name v c = (reply name v, c @ [(name, v)])"

definition on :: "replies \<Rightarrow> client \<Rightarrow> (error + pyval) \<times> client" where
  "on reply c = set_property reply ''power'' (PBool True) c"

definition off :: "replies \<Rightarrow> client \<Rightarrow> (error + pyval) \<times> client" where
  "off reply c = set_property reply ''power'' (PBool False) c"

definition set_favorite_rpm :: "replies \<Rightarrow> int \<Rightarrow> client \<Rightarrow> (error + pyval) \<times> client" where
  "set_favorite_rpm reply rpm c =
     (if rpm < 300 \<or> rpm > 2300 \<or> rpm mod 10 \<noteq> 0
      then (Inl (AirPurifierMiotException
                  (''Invalid favorite motor speed: '' @ str_int rpm
                   @ ''. Must be between 300 and 2300 and divisible by 10'')), c)
      else set_property reply ''favorite_rpm'' (PInt rpm) c)"

definition set_mode :: "replies \<Rightarrow> OperationMode \<Rightarrow> client \<Rightarrow> (error + pyval) \<times> client" where
  "set_mode reply mode c = set_property reply ''mode'' (PInt (OperationMode_value mode)) c"

definition set_buzzer :: "replies \<Rightarrow> bool \<Rightarrow> client \<Rightarrow> (error + pyval) \<times> client" where
  "set_buzzer reply buzzer c = set_property reply ''buzzer'' (PBool buzzer) c"

definition set_child_lock :: "replies \<Rightarrow> bool \<Rightarrow> client \<Rightarrow> (error + pyval) \<times> client" where
  "set_child_lock reply lock c = set_property reply ''child_lock'' (PBool lock) c"

definition set_gesture :: "replies \<Rightarrow> bool \<Rightarrow> client \<Rightarrow> (error + pyval) \<times> client" where
  "set_gesture reply gesture c = set_property reply ''gesture'' (PBool gesture) c"

definition set_favorite_level :: "replies \<Rightarrow> int \<Rightarrow> client \<Rightarrow> (error + pyval) \<times> client" where
  "set_favorite_level reply level c =
     (if level < 0 \<or> level > 14
      then (Inl (AirPurifierMiotException (''Invalid favorite level: '' @ str_int level)), c)
      else set_property reply ''favorite_level'' (PInt level) c)"

definition set_led_brightness :: "replies \<Rightarrow> LedBrightness \<Rightarrow> client \<Rightarrow> (error + pyval) \<times> client" where
  "set_led_brightness reply brightness c =
     set_property reply ''led_brightness'' (PInt (LedBrightness_value brightness)) c"

section \<open>The status view\<close>

text \<open>
  The bag built by \<^verbatim>\<open>status\<close> and held in \<^verbatim>\<open>self.data\<close>. \<^verbatim>\<open>data[k]\<close> raises \<^verbatim>\<open>KeyError\<close>
  for a key that is not there; \<^verbatim>\<open>data.get(k)\<close> gives \<^verbatim>\<open>None\<close> instead.
\<close>

type_synonym bag = "string \<rightharpoonup> pyval"

definition getitem :: "bag \<Rightarrow> string \<Rightarrow> error + pyval" where
  "getitem data k = (case data k of None \<Rightarrow> Inl (KeyError k) | Some v \<Rightarrow> Inr v)"

definition dict_get :: "bag \<Rightarrow> string \<Rightarrow> pyval" where
  "dict_get data k = (case data k of None \<Rightarrow> PNone | Some v \<Rightarrow> v)"

subsection \<open>Python's \<^verbatim>\<open>round(x, 1)\<close>\<close>

text \<open>
  On a float, CPython's \<^verbatim>\<open>round(x, 1)\<close> first takes the decimal with one digit after the
  point that is nearest to the exact value of \<open>x\<close> (a tie goes to the even digit), then
  reads that decimal back as a float, that is, rounds it to the nearest number with a
  53-bit mantissa (a tie goes to the even mantissa). A decimal \<open>k / 10\<close> other than zero is
  at least \<open>1 / 10\<close> in size, and a float of size \<open>2 ^ 53\<close> or more is a whole number and
  is its own decimal, so the second step never leaves the range of the normal floats and
  the exponent needs no bound. Infinities and NaN round to themselves. On an \<^verbatim>\<open>int\<close> (and
  so on a \<^verbatim>\<open>bool\<close>) \<^verbatim>\<open>round(n, 1)\<close> is the integer \<open>n\<close>; a value of any other kind has no
  \<^verbatim>\<open>__round__\<close> and raises \<^verbatim>\<open>TypeError\<close>.
\<close>

definition round_half_even :: "rat \<Rightarrow> int" where
  "round_half_even q =
     (let f = \<lfloor>q\<rfloor>; r = q - of_int f
      in if r < 1 / 2 then f else if 1 / 2 < r then f + 1 else if even f then f else f + 1)"

text \<open>The number of binary digits of a positive integer.\<close>

function bit_length :: "int \<Rightarrow> nat" where
  "bit_length n = (if n \<le> 0 then 0 else Suc (bit_length (n div 2)))"
  by pat_completeness auto
termination
  by (relation "measure nat") auto

declare bit_length.simps [simp del]

text \<open>The integer \<open>e\<close> with \<open>2 ^ e \<le> p / q < 2 ^ (e + 1)\<close>, for positive \<open>p\<close> and \<open>q\<close>.\<close>

definition floor_log2 :: "int \<Rightarrow> int \<Rightarrow> int" where
  "floor_log2 p q =
     (let d = int (bit_length p) - int (bit_length q)
      in if (2 :: rat) powi d * of_int q \<le> of_int p then d else d - 1)"

text \<open>
  The float nearest to \<open>k / q\<close> (\<open>q\<close> positive), by its exact value: the mantissa \<open>m\<close> is
  \<open>\<bar>k / q\<bar>\<close> scaled into \<open>2 ^ 52 \<le> _ < 2 ^ 53\<close> and rounded to an integer.
\<close>

definition nearest_double :: "int \<Rightarrow> int \<Rightarrow> rat" where
  "nearest_double k q =
     (if k = 0 then 0
      else let e = floor_log2 \<bar>k\<bar> q - 52;
               m = round_half_even (of_int \<bar>k\<bar> / of_int q / 2 powi e)
           in of_int (sgn k * m) * 2 powi e)"

fun float_round1 :: "pyfloat \<Rightarrow> pyfloat" where
  "float_round1 (Finite x) = Finite (nearest_double (round_half_even (x * 10)) 10)"
| "float_round1 f = f"

fun py_round1 :: "pyval \<Rightarrow> error + pyval" where
  "py_round1 (PFloat f) = Inr (PFloat (float_round1 f))"
| "py_round1 (PInt n) = Inr (PInt n)"
| "py_round1 (PBool b) = Inr (PInt (if b then 1 else 0))"
| "py_round1 _ = Inl TypeError"

subsection \<open>\<^verbatim>\<open>BasicAirPurifierMiotStatus\<close>\<close>

text \<open>
  One function per property of the class, from the bag to the value or the exception. The
  property \<^verbatim>\<open>power\<close> is named \<open>power_state\<close>, since \<open>power\<close> is HOL's
  exponentiation.
\<close>

definition is_on :: "bag \<Rightarrow> error + pyval" where
  "is_on data = getitem data ''power''"

definition power_state :: "bag \<Rightarrow> error + pyval" where
  "power_state data =
     (case is_on data of
        Inl e \<Rightarrow> Inl e
      | Inr v \<Rightarrow> Inr (PStr (if truthy v then ''on'' else ''off'')))"

definition tvoc :: "bag \<Rightarrow> error + pyval" where
  "tvoc data = getitem data ''tvoc''"

definition mode :: "bag \<Rightarrow> error + pyval" where
  "mode data =
     (case getitem data ''mode'' of
        Inl e \<Rightarrow> Inl e
      | Inr v \<Rightarrow> (case OperationMode_call v of Inl e \<Rightarrow> Inl e | Inr m \<Rightarrow> Inr (PMode m)))"

definition buzzer :: "bag \<Rightarrow> error + pyval" where
  "buzzer data =
     (case getitem data ''buzzer'' of
        Inl e \<Rightarrow> Inl e
      | Inr v \<Rightarrow> if v \<noteq> PNone then getitem data ''buzzer'' else Inr PNone)"

definition child_lock :: "bag \<Rightarrow> error + pyval" where
  "child_lock data = getitem data ''child_lock''"

definition filter_life_remaining :: "bag \<Rightarrow> error + pyval" where
  "filter_life_remaining data = getitem data ''filter_life_remaining''"

definition filter_hours_used :: "bag \<Rightarrow> error + pyval" where
  "filter_hours_used data = getitem data ''filter_hours_used''"

definition motor_speed :: "bag \<Rightarrow> error + pyval" where
  "motor_speed data = getitem data ''motor_speed''"

definition favorite_rpm :: "bag \<Rightarrow> error + pyval" where
  "favorite_rpm data = Inr (dict_get data ''favorite_rpm'')"

subsection \<open>\<^verbatim>\<open>AirPurifierZA1Status\<close>\<close>

definition average_aqi :: "bag \<Rightarrow> error + pyval" where
  "average_aqi data = getitem data ''average_aqi''"

definition humidity :: "bag \<Rightarrow> error + pyval" where
  "humidity data = getitem data ''humidity''"

definition temperature :: "bag \<Rightarrow> error + pyval" where
  "temperature data =
     (case getitem data ''temperature'' of
        Inl e \<Rightarrow> Inl e
      | Inr v \<Rightarrow>
          if v \<noteq> PNone
          then (case getitem data ''temperature'' of Inl e \<Rightarrow> Inl e | Inr w \<Rightarrow> py_round1 w)
          else Inr PNone)"

definition led_brightness :: "bag \<Rightarrow> error + pyval" where
  "led_brightness data =
     (case getitem data ''led_brightness'' of
        Inl e \<Rightarrow> Inl e
      | Inr v \<Rightarrow>
          if v \<noteq> PNone
          then (case getitem data ''led_brightness'' of
                  Inl e \<Rightarrow> Inl e
                | Inr w \<Rightarrow> (case LedBrightness_call w of
                             Inl ValueError \<Rightarrow> Inr PNone
                           | Inl e \<Rightarrow> Inl e
                           | Inr b \<Rightarrow> Inr (PLed b)))
          else Inr PNone)"

definition favorite_level :: "bag \<Rightarrow> error + pyval" where
  "favorite_level data = getitem data ''favorite_level''"

definition use_time :: "bag \<Rightarrow> error + pyval" where
  "use_time data = getitem data ''use_time''"

definition purify_volume :: "bag \<Rightarrow> error + pyval" where
  "purify_volume data = getitem data ''purify_volume''"

definition filter_rfid_product_id :: "bag \<Rightarrow> error + pyval" where
  "filter_rfid_product_id data = getitem data ''filter_rfid_product_id''"

definition filter_rfid_tag :: "bag \<Rightarrow> error + pyval" where
  "filter_rfid_tag data = getitem data ''filter_rfid_tag''"

definition pm25 :: "bag \<Rightarrow> error + pyval" where
  "pm25 data = getitem data ''pm25''"

definition gesture_status :: "bag \<Rightarrow> error + pyval" where
  "gesture_status data = getitem data ''gesture_status''"

text \<open>
  Every accessor of the two status classes other than \<^verbatim>\<open>favorite_rpm\<close>, with the key it
  reads (\<^verbatim>\<open>power\<close> reads through \<^verbatim>\<open>is_on\<close>).
\<close>

definition subscript_accessors :: "(string \<times> (bag \<Rightarrow> error + pyval)) list" where
  "subscript_accessors =
    [(''power'', is_on),
     (''power'', power_state),
     (''tvoc'', tvoc),
     (''mode'', mode),
     (''buzzer'', buzzer),
     (''child_lock'', child_lock),
     (''filter_life_remaining'', filter_life_remaining),
     (''filter_hours_used'', filter_hours_used),
     (''motor_speed'', motor_speed),
     (''average_aqi'', average_aqi),
     (''humidity'', humidity),
     (''temperature'', temperature),
     (''led_brightness'', led_brightness),
     (''favorite_level'', favorite_level),
     (''use_time'', use_time),
     (''purify_volume'', purify_volume),
     (''filter_rfid_product_id'', filter_rfid_product_id),
     (''filter_rfid_tag'', filter_rfid_tag),
     (''pm25'', pm25),
     (''gesture_status'', gesture_status)]"

section \<open>Reading the status\<close>

text \<open>
  \<^verbatim>\<open>get_properties_for_mapping()\<close> belongs to the library: it raises, or returns one entry per
  property asked for. An entry is a dictionary with the keys \<^verbatim>\<open>did\<close> and \<^verbatim>\<open>code\<close>, and
  \<^verbatim>\<open>value\<close> when the device reported one. The comprehension of \<^verbatim>\<open>status\<close> reads
  \<^verbatim>\<open>prop["value"]\<close> only where the code is 0, and a later entry with the same \<^verbatim>\<open>did\<close>
  replaces an earlier one. The field \<open>reported\<close> is the entry's \<^verbatim>\<open>value\<close>, absent when
  the entry has no such key.
\<close>

record prop_entry =
  did :: string
  code :: int
  reported :: "pyval option"

fun build_bag :: "prop_entry list \<Rightarrow> bag \<Rightarrow> error + bag" where
  "build_bag [] acc = Inr acc"
| "build_bag (p # ps) acc =
     (if code p = 0
      then (case reported p of
              None \<Rightarrow> Inl (KeyError ''value'')
            | Some v \<Rightarrow> build_bag ps (acc(did p \<mapsto> v)))
      else build_bag ps (acc(did p \<mapsto> PNone)))"

definition status :: "error + prop_entry list \<Rightarrow> error + bag" where
  "status answer = (case answer of Inl e \<Rightarrow> Inl e | Inr props \<Rightarrow> build_bag props Map.empty)"

section \<open>Commands: what is written, and when\<close>

text \<open>
  C1. Every name that a command passes to \<^verbatim>\<open>set_property\<close> should be a key of the property
  map. \<^verbatim>\<open>set_gesture\<close> does not keep to it: for every argument it calls \<^verbatim>\<open>set_property\<close> with
  the name \<^verbatim>\<open>gesture\<close>, which is not a key of \<^verbatim>\<open>_MODEL_AIRPURIFIER_ZA1\<close>; the map has
  \<^verbatim>\<open>gesture_status\<close>, at address (15, 13).
\<close>

theorem set_gesture_name_not_mapped:
  "snd (set_gesture reply gesture c) = c @ [(''gesture'', PBool gesture)]
   \<and> map_of MODEL_AIRPURIFIER_ZA1 ''gesture'' = None
   \<and> map_of MODEL_AIRPURIFIER_ZA1 ''gesture_status'' = Some (15, 13)"
  by (simp add: set_gesture_def set_property_def MODEL_AIRPURIFIER_ZA1_def)

text \<open>
  The name written by \<^verbatim>\<open>set_favorite_rpm\<close>, which \<^verbatim>\<open>AirPurifierZA1\<close> inherits, is not a
  key of the map either.
\<close>

lemma favorite_rpm_not_mapped: "map_of MODEL_AIRPURIFIER_ZA1 ''favorite_rpm'' = None"
  by (simp add: MODEL_AIRPURIFIER_ZA1_def)

text \<open>The names written by the other commands, and their addresses in the map.\<close>

lemma written_names:
  "snd (on reply c) = c @ [(''power'', PBool True)]"
  "snd (off reply c) = c @ [(''power'', PBool False)]"
  "snd (set_mode reply m c) = c @ [(''mode'', PInt (OperationMode_value m))]"
  "snd (set_buzzer reply b c) = c @ [(''buzzer'', PBool b)]"
  "snd (set_child_lock reply b c) = c @ [(''child_lock'', PBool b)]"
  "snd (set_led_brightness reply l c) = c @ [(''led_brightness'', PInt (LedBrightness_value l))]"
  by (simp_all add: on_def off_def set_mode_def set_buzzer_def set_child_lock_def
        set_led_brightness_def set_property_def)

lemma mapped_names:
  "map_of MODEL_AIRPURIFIER_ZA1 ''power'' = Some (2, 1)"
  "map_of MODEL_AIRPURIFIER_ZA1 ''mode'' = Some (2, 5)"
  "map_of MODEL_AIRPURIFIER_ZA1 ''buzzer'' = Some (5, 1)"
  "map_of MODEL_AIRPURIFIER_ZA1 ''child_lock'' = Some (7, 1)"
  "map_of MODEL_AIRPURIFIER_ZA1 ''led_brightness'' = Some (6, 1)"
  "map_of MODEL_AIRPURIFIER_ZA1 ''favorite_level'' = Some (10, 10)"
  by (simp_all add: MODEL_AIRPURIFIER_ZA1_def)

text \<open>
  C2. For every integer rpm with 300 \<le> rpm \<le> 2300 and rpm mod 10 = 0,
  \<^verbatim>\<open>set_favorite_rpm(rpm)\<close> makes exactly one \<^verbatim>\<open>set_property\<close> call, of the unmodified value
  under the name \<^verbatim>\<open>favorite_rpm\<close>, and returns what that call returned; for every other rpm
  it raises \<^verbatim>\<open>AirPurifierMiotException\<close> and the client has received no call.
\<close>

theorem set_favorite_rpm_validates:
  "(300 \<le> rpm \<and> rpm \<le> 2300 \<and> rpm mod 10 = 0 \<longrightarrow>
      set_favorite_rpm reply rpm c
        = (reply ''favorite_rpm'' (PInt rpm), c @ [(''favorite_rpm'', PInt rpm)]))
   \<and> (\<not> (300 \<le> rpm \<and> rpm \<le> 2300 \<and> rpm mod 10 = 0) \<longrightarrow>
      (\<exists>msg. set_favorite_rpm reply rpm c = (Inl (AirPurifierMiotException msg), c)))"
  by (auto simp: set_favorite_rpm_def set_property_def)

theorem set_favorite_rpm_validates_witness:
  "set_favorite_rpm (\<lambda>_ _. Inr PNone) 300 [] = (Inr PNone, [(''favorite_rpm'', PInt 300)])
   \<and> set_favorite_rpm (\<lambda>_ _. Inr PNone) 2300 [] = (Inr PNone, [(''favorite_rpm'', PInt 2300)])
   \<and> (\<exists>msg. set_favorite_rpm (\<lambda>_ _. Inr PNone) 299 [] = (Inl (AirPurifierMiotException msg), []))
   \<and> (\<exists>msg. set_favorite_rpm (\<lambda>_ _. Inr PNone) 2310 [] = (Inl (AirPurifierMiotException msg), []))
   \<and> (\<exists>msg. set_favorite_rpm (\<lambda>_ _. Inr PNone) 305 [] = (Inl (AirPurifierMiotException msg), []))"
  using set_favorite_rpm_validates [of 300 "\<lambda>_ _. Inr PNone" "[]"]
        set_favorite_rpm_validates [of 2300 "\<lambda>_ _. Inr PNone" "[]"]
        set_favorite_rpm_validates [of 299 "\<lambda>_ _. Inr PNone" "[]"]
        set_favorite_rpm_validates [of 2310 "\<lambda>_ _. Inr PNone" "[]"]
        set_favorite_rpm_validates [of 305 "\<lambda>_ _. Inr PNone" "[]"]
  by simp

lemma OperationMode_call_value: "OperationMode_call (PInt (OperationMode_value m)) = Inr m"
  by (cases m) (simp_all add: OperationMode_call_def)

lemma OperationMode_call_other:
  "n \<notin> {0, 1, 2, 3} \<Longrightarrow> OperationMode_call (PInt n) = Inl ValueError"
  by (simp add: OperationMode_call_def)

text \<open>
  C3. For every member m of \<^verbatim>\<open>OperationMode\<close>, \<^verbatim>\<open>set_mode(m)\<close> writes the integer bound to
  m under the name \<^verbatim>\<open>mode\<close> (\<^verbatim>\<open>Favorite\<close> is written as 2), and the \<^verbatim>\<open>mode\<close> accessor reads
  that integer back as m; on an integer outside 0, 1, 2, 3 the accessor raises
  \<^verbatim>\<open>ValueError\<close>.
\<close>

theorem set_mode_round_trip:
  "set_mode reply m c
     = (reply ''mode'' (PInt (OperationMode_value m)), c @ [(''mode'', PInt (OperationMode_value m))])
   \<and> OperationMode_value Favorite = 2
   \<and> mode (data(''mode'' \<mapsto> PInt (OperationMode_value m))) = Inr (PMode m)
   \<and> (n \<notin> {0, 1, 2, 3} \<longrightarrow> mode (data(''mode'' \<mapsto> PInt n)) = Inl ValueError)"
  by (simp add: set_mode_def set_property_def mode_def getitem_def
        OperationMode_call_value OperationMode_call_other)

theorem set_mode_round_trip_witness:
  "set_mode (\<lambda>_ _. Inr PNone) Favorite [] = (Inr PNone, [(''mode'', PInt 2)])
   \<and> mode [''mode'' \<mapsto> PInt 2] = Inr (PMode Favorite)
   \<and> (9::int) \<notin> {0, 1, 2, 3}
   \<and> mode [''mode'' \<mapsto> PInt 9] = Inl ValueError"
  using set_mode_round_trip [of "\<lambda>_ _. Inr PNone" Favorite "[]" Map.empty 9]
  by simp

text \<open>
  C4. For every integer level with 0 \<le> level \<le> 14, \<^verbatim>\<open>set_favorite_level(level)\<close> makes
  exactly one \<^verbatim>\<open>set_property\<close> call, of the level itself under the name
  \<^verbatim>\<open>favorite_level\<close>, and returns what that call returned; for every other level it raises
  \<^verbatim>\<open>AirPurifierMiotException\<close> and the client has received no call.
\<close>

theorem set_favorite_level_validates:
  "(0 \<le> level \<and> level \<le> 14 \<longrightarrow>
      set_favorite_level reply level c
        = (reply ''favorite_level'' (PInt level), c @ [(''favorite_level'', PInt level)]))
   \<and> (level < 0 \<or> 14 < level \<longrightarrow>
      (\<exists>msg. set_favorite_level reply level c = (Inl (AirPurifierMiotException msg), c)))"
  by (auto simp: set_favorite_level_def set_property_def)

theorem set_favorite_level_validates_witness:
  "set_favorite_level (\<lambda>_ _. Inr PNone) 14 [] = (Inr PNone, [(''favorite_level'', PInt 14)])
   \<and> set_favorite_level (\<lambda>_ _. Inr PNone) 0 [] = (Inr PNone, [(''favorite_level'', PInt 0)])
   \<and> (\<exists>msg. set_favorite_level (\<lambda>_ _. Inr PNone) (-1) [] = (Inl (AirPurifierMiotException msg), []))
   \<and> (\<exists>msg. set_favorite_level (\<lambda>_ _. Inr PNone) 15 [] = (Inl (AirPurifierMiotException msg), []))"
  using set_favorite_level_validates [of 14 "\<lambda>_ _. Inr PNone" "[]"]
        set_favorite_level_validates [of 0 "\<lambda>_ _. Inr PNone" "[]"]
        set_favorite_level_validates [of "-1" "\<lambda>_ _. Inr PNone" "[]"]
        set_favorite_level_validates [of 15 "\<lambda>_ _. Inr PNone" "[]"]
  by simp

text \<open>
  C5. The error that \<^verbatim>\<open>set_favorite_level\<close> raises for a level out of range should carry
  the offending value and the allowed range. The message holds the value only: for 15 it
  is \<^verbatim>\<open>Invalid favorite level: 15\<close>, for -1 it is \<^verbatim>\<open>Invalid favorite level: -1\<close>, and
  neither names the range 0 to 14, unlike the message of \<^verbatim>\<open>set_favorite_rpm\<close>.
\<close>

theorem set_favorite_level_message:
  "set_favorite_level reply 15 c = (Inl (AirPurifierMiotException ''Invalid favorite level: 15''), c)
   \<and> set_favorite_level reply (-1) c = (Inl (AirPurifierMiotException ''Invalid favorite level: -1''), c)"
  by (simp add: set_favorite_level_def str_int_def)

section \<open>The status accessors\<close>

lemma LedBrightness_call_value: "LedBrightness_call (PInt (LedBrightness_value b)) = Inr b"
  by (cases b) (simp_all add: LedBrightness_call_def)

lemma LedBrightness_call_other:
  "n \<notin> {0, 1, 2} \<Longrightarrow> LedBrightness_call (PInt n) = Inl ValueError"
  by (simp add: LedBrightness_call_def)

text \<open>
  C6. The \<^verbatim>\<open>led_brightness\<close> accessor gives the member of \<^verbatim>\<open>LedBrightness\<close> bound to a raw
  0, 1 or 2 (1 gives \<^verbatim>\<open>Dim\<close>); for any other integer it gives \<^verbatim>\<open>None\<close> and does not raise;
  for a raw \<^verbatim>\<open>None\<close> it gives \<^verbatim>\<open>None\<close>.
\<close>

theorem led_brightness_decodes:
  "led_brightness (data(''led_brightness'' \<mapsto> PInt (LedBrightness_value b))) = Inr (PLed b)
   \<and> LedBrightness_value Dim = 1
   \<and> (n \<notin> {0, 1, 2} \<longrightarrow> led_brightness (data(''led_brightness'' \<mapsto> PInt n)) = Inr PNone)
   \<and> led_brightness (data(''led_brightness'' \<mapsto> PNone)) = Inr PNone"
  by (simp add: led_brightness_def getitem_def LedBrightness_call_value LedBrightness_call_other)

theorem led_brightness_decodes_witness:
  "led_brightness [''led_brightness'' \<mapsto> PInt 1] = Inr (PLed Dim)
   \<and> (5::int) \<notin> {0, 1, 2}
   \<and> led_brightness [''led_brightness'' \<mapsto> PInt 5] = Inr PNone
   \<and> led_brightness [''led_brightness'' \<mapsto> PNone] = Inr PNone"
  using led_brightness_decodes [of Map.empty Dim 5]
  by simp

lemma round_half_even_close: "\<bar>q - of_int (round_half_even q)\<bar> \<le> 1 / 2"
proof -
  define f where "f = \<lfloor>q\<rfloor>"
  have "of_int f \<le> q" and "q < of_int f + 1"
    unfolding f_def by linarith+
  then show ?thesis
    unfolding round_half_even_def Let_def f_def [symmetric]
    by (auto simp: abs_if)
qed

lemma bit_length_bounds: "0 < n \<Longrightarrow> 2 ^ bit_length n \<le> 2 * n \<and> n < 2 ^ bit_length n"
proof (induction n rule: bit_length.induct)
  case (1 n)
  have unfold: "bit_length n = Suc (bit_length (n div 2))"
    using "1.prems" by (subst bit_length.simps) simp
  show ?case
  proof (cases "n div 2 \<le> 0")
    case True
    with "1.prems" have "n = 1" by linarith
    then show ?thesis
      by (simp add: unfold) (simp add: bit_length.simps)
  next
    case False
    with "1.IH" "1.prems"
    have "2 ^ bit_length (n div 2) \<le> 2 * (n div 2)" and "n div 2 < 2 ^ bit_length (n div 2)"
      by simp_all
    then show ?thesis
      by (simp add: unfold) linarith
  qed
qed

lemma floor_log2_bounds:
  assumes "0 < p" and "0 < q"
  shows "(2 :: rat) powi floor_log2 p q * of_int q \<le> of_int p"
    and "(of_int p :: rat) < 2 powi (floor_log2 p q + 1) * of_int q"
proof -
  define A :: rat where "A = 2 ^ bit_length p"
  define B :: rat where "B = 2 ^ bit_length q"
  define d where "d = int (bit_length p) - int (bit_length q)"
  have pos: "0 < A" "0 < B" by (simp_all add: A_def B_def)
  have "(of_int (2 ^ bit_length p) :: rat) \<le> of_int (2 * p)"
    and "(of_int p :: rat) < of_int (2 ^ bit_length p)"
    using bit_length_bounds [OF assms(1)] by (simp_all only: of_int_le_iff of_int_less_iff)
  then have p: "A \<le> 2 * of_int p" "of_int p < A" by (simp_all add: A_def)
  have "(of_int (2 ^ bit_length q) :: rat) \<le> of_int (2 * q)"
    and "(of_int q :: rat) < of_int (2 ^ bit_length q)"
    using bit_length_bounds [OF assms(2)] by (simp_all only: of_int_le_iff of_int_less_iff)
  then have q: "B \<le> 2 * of_int q" "of_int q < B" by (simp_all add: B_def)
  have d: "(2 :: rat) powi d = A / B"
    by (simp add: d_def A_def B_def power_int_diff)
  have d1: "(2 :: rat) powi (d + 1) = 2 * (A / B)" and d2: "(2 :: rat) powi (d - 1) = A / B / 2"
    using d by (simp_all add: power_int_add power_int_diff)
  have up: "of_int p < 2 * (A / B) * of_int q"
  proof -
    have "A = A / B * B" using pos by simp
    also have "\<dots> \<le> A / B * (2 * of_int q)"
      using pos q(1) by (intro mult_left_mono) simp_all
    also have "\<dots> = 2 * (A / B) * of_int q" by simp
    finally have "A \<le> 2 * (A / B) * of_int q" .
    with p(2) show ?thesis by linarith
  qed
  have low: "A / B / 2 * of_int q \<le> of_int p"
  proof -
    define t where "t = A / B * of_int q"
    have "t \<le> A / B * B"
      unfolding t_def using pos q(2) by (intro mult_left_mono) simp_all
    also have "\<dots> = A" using pos by simp
    finally have "t / 2 \<le> of_int p" using p(1) by linarith
    moreover have "A / B / 2 * of_int q = t / 2" by (simp add: t_def)
    ultimately show ?thesis by simp
  qed
  show "(2 :: rat) powi floor_log2 p q * of_int q \<le> of_int p"
    using low d2 by (simp add: floor_log2_def Let_def d_def [symmetric])
  show "(of_int p :: rat) < 2 powi (floor_log2 p q + 1) * of_int q"
    using up d1 by (simp add: floor_log2_def Let_def d_def [symmetric] not_le)
qed

lemma nearest_double_close:
  assumes "k \<noteq> 0" and "0 < q"
  shows "\<bar>nearest_double k q - of_int k / of_int q\<bar> \<le> \<bar>of_int k / of_int q\<bar> / 2 ^ 53"
proof -
  define y :: rat where "y = of_int \<bar>k\<bar> / of_int q"
  define e where "e = floor_log2 \<bar>k\<bar> q"
  define E :: rat where "E = 2 powi (e - 52)"
  define m where "m = round_half_even (y / E)"
  define s :: rat where "s = of_int (sgn k)"
  have Epos: "0 < E" by (simp add: E_def)
  have E: "E = 2 powi e / 2 ^ 52" by (simp add: E_def power_int_diff)
  have s: "\<bar>s\<bar> = 1" using assms(1) by (simp add: s_def sgn_if)
  have "(2 :: rat) powi e * of_int q \<le> of_int \<bar>k\<bar>"
    unfolding e_def using assms by (intro floor_log2_bounds(1)) simp_all
  then have low: "2 powi e \<le> y"
    using assms(2) by (simp add: y_def pos_le_divide_eq)
  have "\<bar>y / E - of_int m\<bar> \<le> 1 / 2"
    unfolding m_def by (rule round_half_even_close)
  then have "\<bar>y / E - of_int m\<bar> * E \<le> 1 / 2 * E"
    using Epos by (intro mult_right_mono) simp_all
  moreover have "\<bar>y / E - of_int m\<bar> * E = \<bar>y - of_int m * E\<bar>"
  proof -
    have "\<bar>y / E - of_int m\<bar> * E = \<bar>(y / E - of_int m) * E\<bar>"
      using Epos by (simp add: abs_mult)
    also have "(y / E - of_int m) * E = y - of_int m * E"
      using Epos by (simp add: left_diff_distrib)
    finally show ?thesis .
  qed
  ultimately have near: "\<bar>y - of_int m * E\<bar> \<le> E / 2" by simp
  have "E / 2 \<le> y / 2 ^ 53"
    using low by (simp add: E)
  with near have bound: "\<bar>y - of_int m * E\<bar> \<le> y / 2 ^ 53" by linarith
  have nd: "nearest_double k q = s * (of_int m * E)"
    using assms(1) by (simp add: nearest_double_def Let_def e_def E_def m_def y_def s_def)
  have "(of_int k :: rat) = s * of_int \<bar>k\<bar>"
    by (simp add: s_def sgn_if)
  then have kq: "of_int k / of_int q = s * y" by (simp add: y_def)
  have "0 \<le> y" using assms(2) by (simp add: y_def)
  then have ay: "\<bar>of_int k / of_int q\<bar> = y" using s by (simp add: kq abs_mult)
  have "nearest_double k q - of_int k / of_int q = s * (of_int m * E - y)"
    by (simp add: nd kq right_diff_distrib)
  then have "\<bar>nearest_double k q - of_int k / of_int q\<bar> = \<bar>y - of_int m * E\<bar>"
    using s by (simp add: abs_mult abs_minus_commute)
  with bound ay show ?thesis by simp
qed

text \<open>The value of \<open>nearest_double\<close> has a mantissa of 53 bits.\<close>

lemma nearest_double_mantissa:
  assumes "k \<noteq> 0" and "0 < q"
  shows "\<exists>m e. nearest_double k q = of_int (sgn k * m) * 2 powi e \<and> 2 ^ 52 \<le> m \<and> m \<le> 2 ^ 53"
proof -
  define y :: rat where "y = of_int \<bar>k\<bar> / of_int q"
  define e where "e = floor_log2 \<bar>k\<bar> q"
  define E :: rat where "E = 2 powi (e - 52)"
  define m where "m = round_half_even (y / E)"
  have Epos: "0 < E" by (simp add: E_def)
  have E: "E = 2 powi e / 2 ^ 52" by (simp add: E_def power_int_diff)
  have e1: "(2 :: rat) powi (e + 1) = 2 * 2 powi e" by (simp add: power_int_add)
  have "(2 :: rat) powi e * of_int q \<le> of_int \<bar>k\<bar>"
    and "(of_int \<bar>k\<bar> :: rat) < 2 powi (e + 1) * of_int q"
    unfolding e_def using assms by (intro floor_log2_bounds; simp)+
  then have "2 powi e \<le> y" and "y < 2 * 2 powi e"
    using assms(2) by (simp_all add: y_def pos_le_divide_eq pos_divide_less_eq e1)
  then have "2 ^ 52 * E \<le> y" and "y < 2 ^ 53 * E"
    by (simp_all add: E)
  then have scaled: "2 ^ 52 \<le> y / E" "y / E < 2 ^ 53"
    using Epos by (simp_all add: pos_le_divide_eq pos_divide_less_eq)
  define z where "z = y / E"
  have near: "\<bar>z - of_int m\<bar> \<le> 1 / 2"
    unfolding m_def z_def by (rule round_half_even_close)
  from scaled have z: "2 ^ 52 \<le> z" "z < 2 ^ 53" by (simp_all only: z_def)
  have "(2 ^ 52 :: rat) - 1 < of_int m"
    using z(1) near by linarith
  then have "(of_int (2 ^ 52 - 1) :: rat) < of_int m" by simp
  then have "2 ^ 52 - 1 < m" by (simp only: of_int_less_iff)
  then have lo: "2 ^ 52 \<le> m" by linarith
  have "(of_int m :: rat) < 2 ^ 53 + 1"
    using z(2) near by linarith
  then have "(of_int m :: rat) < of_int (2 ^ 53 + 1)" by simp
  then have "m < 2 ^ 53 + 1" by (simp only: of_int_less_iff)
  then have hi: "m \<le> 2 ^ 53" by linarith
  have "nearest_double k q = of_int (sgn k * m) * 2 powi (e - 52)"
    using assms(1) by (simp add: nearest_double_def Let_def e_def E_def m_def y_def)
  with lo hi show ?thesis by blast
qed

text \<open>
  The float written \<^verbatim>\<open>21.449999\<close> is the one nearest to 21449999 / 1000000, the float
  written \<^verbatim>\<open>21.4\<close> the one nearest to 214 / 10; the first rounds to the decimal 21.4.
\<close>

lemma float_literal_21_449999:
  "nearest_double 21449999 1000000 = 3018818984484297 / 140737488355328"
  by code_simp

lemma float_literal_21_4:
  "nearest_double 214 10 = 3011782250804019 / 140737488355328"
  by code_simp

lemma round_21_449999:
  "round_half_even (3018818984484297 / 140737488355328 * 10) = 214"
  by code_simp

text \<open>
  C7. The \<^verbatim>\<open>temperature\<close> accessor gives \<^verbatim>\<open>None\<close> for a raw \<^verbatim>\<open>None\<close>. For a raw float x
  it gives the float nearest to the decimal k / 10, with one digit after the point, that is
  nearest to x: k / 10 is within 1 / 20 of x, and the float given is within a relative
  error of 2 ^ -53 of k / 10. So 21.449999 gives 21.4.
\<close>

theorem temperature_rounds_to_one_decimal:
  "temperature (data(''temperature'' \<mapsto> PNone)) = Inr PNone
   \<and> temperature (data(''temperature'' \<mapsto> PFloat (Finite x)))
       = Inr (PFloat (Finite (nearest_double (round_half_even (x * 10)) 10)))
   \<and> \<bar>x - of_int (round_half_even (x * 10)) / 10\<bar> \<le> 1 / 20
   \<and> \<bar>nearest_double (round_half_even (x * 10)) 10 - of_int (round_half_even (x * 10)) / 10\<bar>
       \<le> \<bar>of_int (round_half_even (x * 10)) / 10\<bar> / 2 ^ 53"
proof -
  define k where "k = round_half_even (x * 10)"
  have "\<bar>x * 10 - of_int k\<bar> \<le> 1 / 2"
    unfolding k_def by (rule round_half_even_close)
  then have dec: "\<bar>x - of_int k / 10\<bar> \<le> 1 / 20" by (simp add: abs_if split: if_splits)
  have fl: "\<bar>nearest_double k 10 - of_int k / 10\<bar> \<le> \<bar>of_int k / 10\<bar> / 2 ^ 53"
  proof (cases "k = 0")
    case True
    then show ?thesis by (simp add: nearest_double_def)
  next
    case False
    from nearest_double_close [OF this, of 10] show ?thesis by simp
  qed
  have "temperature (data(''temperature'' \<mapsto> PNone)) = Inr PNone"
    by (simp add: temperature_def getitem_def)
  moreover have "temperature (data(''temperature'' \<mapsto> PFloat (Finite x)))
       = Inr (PFloat (Finite (nearest_double k 10)))"
    by (simp add: temperature_def getitem_def k_def)
  ultimately show ?thesis using dec fl unfolding k_def by simp
qed

theorem temperature_rounds_to_one_decimal_witness:
  "temperature [''temperature'' \<mapsto> PFloat (Finite (3018818984484297 / 140737488355328))]
     = Inr (PFloat (Finite (3011782250804019 / 140737488355328)))
   \<and> temperature [''temperature'' \<mapsto> PNone] = Inr PNone"
  using temperature_rounds_to_one_decimal [of Map.empty "3018818984484297 / 140737488355328"]
  by (simp only: round_21_449999 float_literal_21_4)

text \<open>
  C9. On every bag that has no key \<^verbatim>\<open>favorite_rpm\<close>, the \<^verbatim>\<open>favorite_rpm\<close> accessor gives
  \<^verbatim>\<open>None\<close> and does not raise.
\<close>

theorem favorite_rpm_missing_key:
  "data ''favorite_rpm'' = None \<Longrightarrow> favorite_rpm data = Inr PNone"
  by (simp add: favorite_rpm_def dict_get_def)

theorem favorite_rpm_missing_key_witness:
  "[''power'' \<mapsto> PBool True, ''mode'' \<mapsto> PInt 1] ''favorite_rpm'' = None
   \<and> favorite_rpm [''power'' \<mapsto> PBool True, ''mode'' \<mapsto> PInt 1] = Inr PNone"
  using favorite_rpm_missing_key [of "[''power'' \<mapsto> PBool True, ''mode'' \<mapsto> PInt 1]"]
  by simp

lemma py_round1_not_None: "py_round1 v \<noteq> Inr PNone"
  by (cases v) simp_all

text \<open>
  C10, as stated, says that an accessor other than \<^verbatim>\<open>favorite_rpm\<close> gives \<^verbatim>\<open>None\<close> only
  when its key is there and holds \<^verbatim>\<open>None\<close>. On the bag with \<^verbatim>\<open>led_brightness\<close> at 5 the
  \<^verbatim>\<open>led_brightness\<close> accessor gives \<^verbatim>\<open>None\<close>, and the key does not hold \<^verbatim>\<open>None\<close>.
\<close>

theorem led_brightness_absent_without_null:
  "\<not> (led_brightness [''led_brightness'' \<mapsto> PInt 5] = Inr PNone
        \<longrightarrow> [''led_brightness'' \<mapsto> PInt 5] ''led_brightness'' = Some PNone)"
  by (simp add: led_brightness_def getitem_def LedBrightness_call_def)

lemma subscript_missing:
  "(k, acc) \<in> set subscript_accessors \<Longrightarrow> data k = None \<Longrightarrow> acc data = Inl (KeyError k)"
  by (auto simp: subscript_accessors_def getitem_def is_on_def power_state_def tvoc_def mode_def
        buzzer_def child_lock_def filter_life_remaining_def filter_hours_used_def motor_speed_def
        average_aqi_def humidity_def temperature_def led_brightness_def favorite_level_def
        use_time_def purify_volume_def filter_rfid_product_id_def filter_rfid_tag_def pm25_def
        gesture_status_def)

lemma subscript_absent:
  "(k, acc) \<in> set subscript_accessors \<Longrightarrow> acc data = Inr PNone \<Longrightarrow>
     data k = Some PNone
     \<or> (k = ''led_brightness'' \<and> (\<exists>v. data k = Some v \<and> LedBrightness_call v = Inl ValueError))"
  by (auto simp: subscript_accessors_def getitem_def is_on_def power_state_def tvoc_def mode_def
        buzzer_def child_lock_def filter_life_remaining_def filter_hours_used_def motor_speed_def
        average_aqi_def humidity_def temperature_def led_brightness_def favorite_level_def
        use_time_def purify_volume_def filter_rfid_product_id_def filter_rfid_tag_def pm25_def
        gesture_status_def py_round1_not_None
        split: option.splits sum.splits if_splits error.splits)

text \<open>
  C10, amended. \<^verbatim>\<open>favorite_rpm\<close> never raises. Every other accessor raises \<^verbatim>\<open>KeyError\<close>
  on a bag that lacks its key, and gives \<^verbatim>\<open>None\<close> only when the key is there and holds
  \<^verbatim>\<open>None\<close> or, for \<^verbatim>\<open>led_brightness\<close> alone, holds a value that is no \<^verbatim>\<open>LedBrightness\<close>.
\<close>

theorem only_favorite_rpm_tolerates_missing_key:
  "(\<forall>e. favorite_rpm data \<noteq> Inl e)
   \<and> (\<forall>(k, acc) \<in> set subscript_accessors.
         (data k = None \<longrightarrow> acc data = Inl (KeyError k))
       \<and> (acc data = Inr PNone \<longrightarrow>
            data k = Some PNone
            \<or> (k = ''led_brightness''
                \<and> (\<exists>v. data k = Some v \<and> LedBrightness_call v = Inl ValueError))))"
proof -
  have "(data k = None \<longrightarrow> acc data = Inl (KeyError k))
       \<and> (acc data = Inr PNone \<longrightarrow>
            data k = Some PNone
            \<or> (k = ''led_brightness''
                \<and> (\<exists>v. data k = Some v \<and> LedBrightness_call v = Inl ValueError)))"
    if "(k, acc) \<in> set subscript_accessors" for k acc
    using subscript_missing [OF that, of data] subscript_absent [OF that, of data] by blast
  moreover have "\<forall>e. favorite_rpm data \<noteq> Inl e"
    by (simp add: favorite_rpm_def)
  ultimately show ?thesis by blast
qed

theorem only_favorite_rpm_tolerates_missing_key_witness:
  "child_lock Map.empty = Inl (KeyError ''child_lock'')
   \<and> gesture_status Map.empty = Inl (KeyError ''gesture_status'')
   \<and> led_brightness Map.empty = Inl (KeyError ''led_brightness'')
   \<and> favorite_rpm Map.empty = Inr PNone
   \<and> buzzer [''buzzer'' \<mapsto> PNone] = Inr PNone
   \<and> [''buzzer'' \<mapsto> PNone] ''buzzer'' = Some PNone"
proof -
  have "child_lock Map.empty = Inl (KeyError ''child_lock'')"
    and "gesture_status Map.empty = Inl (KeyError ''gesture_status'')"
    and "led_brightness Map.empty = Inl (KeyError ''led_brightness'')"
    using only_favorite_rpm_tolerates_missing_key [of Map.empty]
    by (simp_all add: subscript_accessors_def)
  moreover have "favorite_rpm Map.empty = Inr PNone"
    by (simp add: favorite_rpm_def dict_get_def)
  moreover have "buzzer [''buzzer'' \<mapsto> PNone] = Inr PNone"
    by (simp add: buzzer_def getitem_def)
  moreover from this have "[''buzzer'' \<mapsto> PNone] ''buzzer'' = Some PNone"
    using only_favorite_rpm_tolerates_missing_key [of "[''buzzer'' \<mapsto> PNone]"]
    by (simp add: subscript_accessors_def)
  ultimately show ?thesis by simp
qed

section \<open>Building the bag\<close>

lemma build_bag_distinct:
  assumes "distinct (map did props)"
    and "\<forall>p \<in> set props. code p = 0 \<longrightarrow> reported p \<noteq> None"
  shows "\<exists>bag. build_bag props acc = Inr bag
           \<and> (\<forall>p \<in> set props. bag (did p) = (if code p = 0 then reported p else Some PNone))
           \<and> (\<forall>k. k \<notin> did ` set props \<longrightarrow> bag k = acc k)"
  using assms
proof (induction props arbitrary: acc)
  case Nil
  then show ?case by simp
next
  case (Cons p ps)
  let ?v = "if code p = 0 then the (reported p) else PNone"
  have step: "build_bag (p # ps) acc = build_bag ps (acc(did p \<mapsto> ?v))"
    using Cons.prems(2) by auto
  from Cons.prems have "distinct (map did ps)"
    and "\<forall>q \<in> set ps. code q = 0 \<longrightarrow> reported q \<noteq> None"
    and fresh: "did p \<notin> did ` set ps"
    by auto
  from Cons.IH [OF this(1,2), of "acc(did p \<mapsto> ?v)"]
  obtain bag where bag: "build_bag ps (acc(did p \<mapsto> ?v)) = Inr bag"
    and stored: "\<forall>q \<in> set ps. bag (did q) = (if code q = 0 then reported q else Some PNone)"
    and rest: "\<forall>k. k \<notin> did ` set ps \<longrightarrow> bag k = (acc(did p \<mapsto> ?v)) k"
    by blast
  from rest fresh have "bag (did p) = Some ?v" by simp
  with Cons.prems(2) have here: "bag (did p) = (if code p = 0 then reported p else Some PNone)"
    by auto
  from rest have "\<forall>k. k \<notin> did ` set (p # ps) \<longrightarrow> bag k = acc k" by simp
  with step bag stored here show ?case by auto
qed

text \<open>
  C8. When the bulk read answers with one entry per name, and every entry with code 0
  reports a value, \<^verbatim>\<open>status\<close> returns a bag in which every entry with code 0 is stored
  under its name with the value it reported, every entry with another code is stored
  under its name as \<^verbatim>\<open>None\<close>, and there is no other key.
\<close>

theorem status_stores_values_and_absent:
  assumes "distinct (map did props)"
    and "\<forall>p \<in> set props. code p = 0 \<longrightarrow> reported p \<noteq> None"
  shows "\<exists>bag. status (Inr props) = Inr bag
           \<and> (\<forall>p \<in> set props.
                 (code p = 0 \<longrightarrow> bag (did p) = reported p)
               \<and> (code p \<noteq> 0 \<longrightarrow> bag (did p) = Some PNone))
           \<and> dom bag = did ` set props"
proof -
  from build_bag_distinct [OF assms, of Map.empty]
  obtain bag where bag: "build_bag props Map.empty = Inr bag"
    and stored: "\<forall>p \<in> set props. bag (did p) = (if code p = 0 then reported p else Some PNone)"
    and rest: "\<forall>k. k \<notin> did ` set props \<longrightarrow> bag k = None"
    by auto
  have "dom bag = did ` set props"
  proof
    show "dom bag \<subseteq> did ` set props" using rest by (auto simp: dom_def)
    show "did ` set props \<subseteq> dom bag" using stored assms(2) by (auto simp: dom_def)
  qed
  with bag stored show ?thesis by (auto simp: status_def)
qed

theorem status_stores_values_and_absent_witness:
  "status (Inr [\<lparr>did = ''power'', code = 0, reported = Some (PBool True)\<rparr>,
                \<lparr>did = ''mode'', code = 0, reported = Some (PInt 1)\<rparr>,
                \<lparr>did = ''tvoc'', code = -4001, reported = None\<rparr>])
     = Inr [''power'' \<mapsto> PBool True, ''mode'' \<mapsto> PInt 1, ''tvoc'' \<mapsto> PNone]"
proof -
  let ?props = "[\<lparr>did = ''power'', code = 0, reported = Some (PBool True)\<rparr>,
                \<lparr>did = ''mode'', code = 0, reported = Some (PInt 1)\<rparr>,
                \<lparr>did = ''tvoc'', code = -4001, reported = None\<rparr>]"
  have d: "distinct (map did ?props)" by simp
  have r: "\<forall>p \<in> set ?props. code p = 0 \<longrightarrow> reported p \<noteq> None" by simp
  from status_stores_values_and_absent [OF d r]
  obtain bag where bag: "status (Inr ?props) = Inr bag"
    and at: "bag ''power'' = Some (PBool True)" "bag ''mode'' = Some (PInt 1)"
            "bag ''tvoc'' = Some PNone"
    and dm: "dom bag = {''power'', ''mode'', ''tvoc''}"
    by auto
  have "bag = [''power'' \<mapsto> PBool True, ''mode'' \<mapsto> PInt 1, ''tvoc'' \<mapsto> PNone]"
  proof
    fix k
    show "bag k = [''power'' \<mapsto> PBool True, ''mode'' \<mapsto> PInt 1, ''tvoc'' \<mapsto> PNone] k"
      using at dm by (cases "k \<in> dom bag") (auto simp: domIff)
  qed
  with bag show ?thesis by simp
qed

end
